theory Spec2Isabelle
  imports Complex_Main
begin

text \<open>
  A model of the Pollen Mobile scraper (\<open>main.go\<close>): the helpers that validate and
  convert cell IDs, the retrying fetcher of the primary API, the geocode cache, the
  three sync routines and \<open>main\<close>, followed by the properties of the specification
  that concern them.
\<close>

section \<open>Values and errors\<close>

text \<open>
  The program carries \<open>float64\<close> values (coordinates, reward amounts) from the upstream
  responses to the store and never computes with them, so they are modelled as reals.
  Go's \<open>int\<close> fields are carried the same way. Time is a reading of the wall clock, in
  clock units.
\<close>

type_synonym float64 = real
type_synonym time = nat

datatype error =
    ErrSyntax              \<comment> \<open>\<open>strconv.ErrSyntax\<close>\<close>
  | ErrRange               \<comment> \<open>\<open>strconv.ErrRange\<close>\<close>
  | ErrInvalidArgument     \<comment> \<open>the error \<open>main\<close> panics with on a malformed hex group\<close>
  | ErrRequest string      \<comment> \<open>\<open>http.NewRequest\<close> refused the URL\<close>
  | ErrTransport string    \<comment> \<open>\<open>cli.Do\<close> failed\<close>
  | ErrDecode string       \<comment> \<open>the JSON decoder failed\<close>
  | ErrMarshal string      \<comment> \<open>\<open>json.Marshal\<close> failed\<close>
  | ErrDB string           \<comment> \<open>the store failed\<close>

section \<open>Helpers: \<open>strings.Split\<close>, \<open>strconv.ParseInt\<close>, \<open>isValidHex\<close>, \<open>hexToLatLng\<close>\<close>

text \<open>
  \<open>strings.Split(s, sep)\<close> for a one-byte separator: the substrings between the
  separators, so one more token than there are separators; the empty string gives one
  empty token.
\<close>

fun Split :: "string \<Rightarrow> char \<Rightarrow> string list" where
  "Split [] sep = [[]]"
| "Split (c # cs) sep =
     (if c = sep then [] # Split cs sep
      else (case Split cs sep of
              [] \<Rightarrow> [[c]]
            | t # ts \<Rightarrow> (c # t) # ts))"

text \<open>
  \<open>strconv.ParseUint(s, 16, 64)\<close> and \<open>strconv.ParseInt(s, 16, 64)\<close>, the only way
  the program calls the parser: base 16, 64 bits. Both return a value and an error, and
  the value is meaningful also when the error is set (0 on a syntax error, the clamped
  value on a range error).
\<close>

definition lower :: "int \<Rightarrow> int" where
  \<comment> \<open>\<open>c | ('x' - 'X')\<close>: sets bit 5 of the byte\<close>
  "lower c = (if (c div 32) mod 2 = 0 then c + 32 else c)"

definition digitVal :: "char \<Rightarrow> int option" where
  \<comment> \<open>the \<open>switch\<close> of the parser's loop: the digit of a byte, None for the default case\<close>
  "digitVal ch =
     (let c = (of_char ch :: int) in
      if 48 \<le> c \<and> c \<le> 57 then Some (c - 48)
      else if 97 \<le> lower c \<and> lower c \<le> 122 then Some (lower c - 97 + 10)
      else None)"

definition maxUint64 :: int where
  "maxUint64 = 2 ^ 64 - 1"

fun ParseUint_loop :: "int \<Rightarrow> string \<Rightarrow> int \<times> error option" where
  "ParseUint_loop n [] = (n, None)"
| "ParseUint_loop n (ch # s) =
     (case digitVal ch of
        None \<Rightarrow> (0, Some ErrSyntax)
      | Some d \<Rightarrow>
          if d \<ge> 16 then (0, Some ErrSyntax)
          else if n \<ge> maxUint64 div 16 + 1 then (maxUint64, Some ErrRange)
          else
            (let n' = (n * 16) mod 2 ^ 64;
                 n1 = (n' + d) mod 2 ^ 64
             in if n1 < n' \<or> n1 > maxUint64 then (maxUint64, Some ErrRange)
                else ParseUint_loop n1 s))"

definition ParseUint :: "string \<Rightarrow> int \<times> error option" where
  "ParseUint s = (if s = [] then (0, Some ErrSyntax) else ParseUint_loop 0 s)"

definition int64 :: "int \<Rightarrow> int" where
  \<comment> \<open>conversion to a signed 64-bit integer: wraps\<close>
  "int64 x = (x + 2 ^ 63) mod 2 ^ 64 - 2 ^ 63"

definition ParseInt :: "string \<Rightarrow> int \<times> error option" where
  "ParseInt s0 =
     (if s0 = [] then (0, Some ErrSyntax)
      else
        (let neg = (hd s0 = CHR ''-'');
             s = (if hd s0 = CHR ''+'' \<or> hd s0 = CHR ''-'' then tl s0 else s0);
             (un, err) = ParseUint s;
             cutoff = (2 ^ 63 :: int)
         in if err \<noteq> None \<and> err \<noteq> Some ErrRange then (0, err)
            else if \<not> neg \<and> un \<ge> cutoff then (int64 (cutoff - 1), Some ErrRange)
            else if neg \<and> un > cutoff then (int64 (- int64 cutoff), Some ErrRange)
            else (if neg then int64 (- int64 un) else int64 un, None)))"

fun isValidHex_loop :: "string list \<Rightarrow> bool" where
  "isValidHex_loop [] = True"
| "isValidHex_loop (hex # hexes) =
     (if length hex \<noteq> 15 then False
      else (case ParseInt hex of
              (_, Some err) \<Rightarrow> False
            | (_, None) \<Rightarrow> isValidHex_loop hexes))"

definition isValidHex :: "string \<Rightarrow> bool" where
  "isValidHex s = isValidHex_loop (Split s (CHR '',''))"

text \<open>
  \<open>hexToLatLng\<close> drops the parser's error and hands the value to \<open>h3.CellToLatLng\<close>,
  a function of the H3 library, taken as a parameter.
\<close>

definition hexToLatLng :: "(int \<Rightarrow> float64 \<times> float64) \<Rightarrow> string \<Rightarrow> float64 \<times> float64" where
  "hexToLatLng CellToLatLng hex = (let (v, _) = ParseInt hex in CellToLatLng v)"

section \<open>Data model\<close>

subsection \<open>Upstream response shapes\<close>

text \<open>
  A value held in an \<open>interface{}\<close>: the dynamic types the program can meet there.
  \<open>Slice\<close> is \<open>[]interface{}\<close>, \<open>Map\<close> is \<open>map[string]interface{}\<close>, and
  \<open>StringSlice\<close> is \<open>[]string\<close>, the one type the switch of \<open>syncRewards\<close> asks for.
\<close>

datatype any =
    Nil
  | Bool bool
  | Float64 float64
  | String string
  | Slice "any list"
  | Map "(string \<times> any) list"
  | StringSlice "string list"

text \<open>
  What \<open>encoding/json\<close> stores when it decodes a JSON value into an \<open>interface{}\<close>:
  \<open>nil\<close>, \<open>bool\<close>, \<open>float64\<close>, \<open>string\<close>, \<open>[]interface{}\<close> for an array and
  \<open>map[string]interface{}\<close> for an object.
\<close>

datatype json =
    JNull
  | JBool bool
  | JNumber float64
  | JString string
  | JArray "json list"
  | JObject "(string \<times> json) list"

fun decodeAny :: "json \<Rightarrow> any" where
  "decodeAny JNull = Nil"
| "decodeAny (JBool b) = Bool b"
| "decodeAny (JNumber x) = Float64 x"
| "decodeAny (JString s) = String s"
| "decodeAny (JArray js) = Slice (map decodeAny js)"
| "decodeAny (JObject kvs) = Map (map (\<lambda>(k, j). (k, decodeAny j)) kvs)"

record HexListItem =
  hl_ID :: string
  hl_Covered :: int
  hl_FlowerCount :: int

record HexItem_Hex =
  hi_SignalStrength :: int
  hi_Attach :: int
  hi_LastCovered :: string
  hi_LastPollenDrop :: string
  hi_Device :: "string list"
  hi_Time :: string
  hi_H3HexTop :: string
  hi_Flowers :: "string list"
  hi_FlowersContained :: "string list"
  hi_BountyReward :: float64
  hi_H3Hex :: string
  hi_Ping :: float64
  hi_LootBoxReward :: int
  hi_DailyReward :: int
  hi_Bounty :: string
  hi_BountyTime :: string

record HexItem =
  hi_Hex :: HexItem_Hex

record FlowerListItem =
  fi_BountyRewards :: int
  fi_DisplayName :: string
  fi_UpdateTime :: string
  fi_DailyBeesSeen :: "string list"
  fi_FirstSeen :: "string option"
  fi_HBeesSeen :: "string list"
  fi_WalletAddress :: string
  fi_CoveredHexes :: "string list"
  fi_LastSeen :: "string option"
  fi_DailyAttaches :: int
  fi_H3Hex :: string
  fi_Active :: int
  fi_FlowerRewards :: float64
  fi_DailyCoveredHexes :: "string list"
  fi_NFTAddress :: string
  fi_ID :: string
  fi_Nickname :: string
  fi_FlowerAttaches :: int
  fi_DailyHBeesSeen :: "string list"
  fi_DailyRewards :: float64
  fi_ImageURL :: string
  fi_BeesSeen :: "(string \<times> string) list"

record DeviceRewardItem =
  ri_PCN :: float64
  ri_PIC :: float64
  ri_RSERatio :: float64
  ri_Client :: string
  ri_Coverage :: any
  ri_DailyPIC :: float64
  ri_Date :: string
  ri_Device :: string
  ri_DeviceType :: string
  ri_Reward :: string
  ri_RewardID :: string
  ri_Transaction :: string
  ri_TransactionStatus :: string
  ri_Wallet :: string

text \<open>\<open>DeviceRewards\<close> is a Go map; the list gives its entries in the order the \<open>range\<close> visits them.\<close>

type_synonym DeviceRewards = "(string \<times> DeviceRewardItem list) list"

record OSMPAPIResponse_Address =
  oa_Suburb :: string
  oa_City :: string
  oa_State :: string
  oa_Town :: string
  oa_County :: string

record OSMPAPIResponse =
  o_DisplayName :: string
  o_Address :: OSMPAPIResponse_Address

record ReverseGeocode =
  g_Lat :: float64
  g_Lng :: float64
  g_Address :: string
  g_Suburb :: string
  g_City :: string
  g_State :: string
  g_Town :: string
  g_County :: string

subsection \<open>Stored rows\<close>

record Hex =
  h_ID :: string
  h_FlowerCount :: int
  h_Covered :: int
  h_Lat :: float64
  h_Lng :: float64
  h_Address :: string
  h_Suburb :: string
  h_City :: string
  h_State :: string
  h_Town :: string
  h_County :: string
  h_Attach :: int
  h_Flowers :: "string list"
  h_FlowersContained :: "string list"
  h_BountyReward :: float64
  h_LootBoxReward :: int
  h_DailyReward :: int
  h_Bounty :: string
  h_BountyTime :: string
  h_UpdatedAt :: time

record Flower =
  f_ID :: string
  f_BountyRewards :: int
  f_DisplayName :: string
  f_UpdateTime :: string
  f_DailyBeesSeen :: "string list"
  f_FirstSeen :: "string option"
  f_HBeesSeen :: "string list"
  f_WalletAddress :: string
  f_CoveredHexes :: "string list"
  f_LastSeen :: "string option"
  f_DailyAttaches :: int
  f_H3Hex :: string
  f_Lat :: float64
  f_Lng :: float64
  f_Address :: string
  f_Suburb :: string
  f_City :: string
  f_State :: string
  f_Town :: string
  f_County :: string
  f_Active :: int
  f_FlowerRewards :: float64
  f_DailyCoveredHexes :: "string list"
  f_NFTAddress :: string
  f_Nickname :: string
  f_FlowerAttaches :: int
  f_DailyHBeesSeen :: "string list"
  f_DailyRewards :: float64
  f_ImageURL :: string
  f_BeesSeen :: string
  f_UpdatedAt :: time

record Reward =
  r_ID :: string
  r_PCN :: float64
  r_PIC :: float64
  r_RSERatio :: float64
  r_Client :: string
  r_Coverage :: "string list"
  r_DailyPIC :: float64
  r_Date :: string
  r_Device :: string
  r_DeviceType :: string
  r_Reward :: string
  r_Transaction :: string
  r_TransactionStatus :: string
  r_Wallet :: string
  r_UpdatedAt :: time

section \<open>The world the program runs in\<close>

text \<open>
  The program talks to the primary API, to the geocoding API and to the store, sleeps and
  prints. Every such effect is recorded, in order, in the trace of the world; the
  answers of the outside are given by an environment, which may answer differently at
  different times.
\<close>

datatype table = pollen_hexes | pollen_flowers | pollen_rewards

datatype message =
    FoundRewardCandidates nat   \<comment> \<open>\<open>"Found %v reward candidates\n"\<close>\<close>
  | RewardProgress nat nat      \<comment> \<open>\<open>"Reward progress: %d/%d\n"\<close>\<close>
  | FoundFlowers nat            \<comment> \<open>\<open>"Found %v flowers\n"\<close>\<close>
  | FoundHexes nat              \<comment> \<open>\<open>"Found %v hexes\n"\<close>\<close>
  | HexProgress nat nat         \<comment> \<open>\<open>"Hex progress: %v / %v\n"\<close>\<close>
  | ErrorMessage error          \<comment> \<open>\<open>"Error: %v\n"\<close>, printed by \<open>handleErr\<close>\<close>

datatype event =
    PollenTake                        \<comment> \<open>\<open>pollenRateLimit.Take()\<close>\<close>
  | PollenGet string                  \<comment> \<open>\<open>cli.Do\<close> of a GET on the primary API\<close>
  | Sleep nat                         \<comment> \<open>\<open>time.Sleep\<close>\<close>
  | OsmTake                           \<comment> \<open>\<open>osmRateLimit.Take()\<close>\<close>
  | OsmGet string float64 float64     \<comment> \<open>\<open>cli.Do\<close> of a GET on the geocoding API, for a cell at its coordinates\<close>
  | Printf message
  | Open                              \<comment> \<open>\<open>gorm.Open\<close>\<close>
  | AutoMigrate table
  | Exec string
  | Find table                        \<comment> \<open>a \<open>SELECT\<close> on a table\<close>
  | Create table "string list"        \<comment> \<open>one \<open>INSERT ... ON CONFLICT\<close> statement, with the keys of its rows\<close>

text \<open>
  The outcome of one HTTP exchange that decodes into a \<open>'a\<close>: the request could not be
  built, the transport failed, or a body arrived and the decoder left a value and,
  possibly, an error.
\<close>

datatype 'a reply =
    NewRequestFails error
  | DoFails error
  | Decoded 'a "error option"

record env =
  CellToLatLng :: "int \<Rightarrow> float64 \<times> float64"
  apiHexes :: "time \<Rightarrow> string \<Rightarrow> HexListItem list reply"
  apiHex :: "time \<Rightarrow> string \<Rightarrow> HexItem reply"
  apiFlowers :: "time \<Rightarrow> string \<Rightarrow> FlowerListItem list reply"
  apiRewards :: "time \<Rightarrow> string \<Rightarrow> DeviceRewards reply"
  osm :: "time \<Rightarrow> float64 \<Rightarrow> float64 \<Rightarrow> OSMPAPIResponse reply"
  Marshal :: "(string \<times> string) list \<Rightarrow> string \<times> error option"
  dbError :: "time \<Rightarrow> error option"

text \<open>
  \<open>clause.OnConflict\<close>, with the fields the program sets: the conflict target, whether
  all columns are overwritten, and the extra assignments (column and value).
\<close>

record OnConflict =
  Columns :: "string list"
  UpdateAll :: bool
  DoUpdates :: "(string \<times> time) list"

record world =
  clock :: time
  upsertClause :: OnConflict
  osmCache :: "string \<rightharpoonup> ReverseGeocode"
  trace :: "event list"
  hexRows :: "Hex list"
  flowerRows :: "Flower list"
  rewardRows :: "Reward list"

text \<open>
  Package initialisation. The package-level variables are evaluated once, when the
  process starts: \<open>osmCache\<close> is the empty map, and the \<open>Value\<close> of the assignment
  in \<open>upsertClause\<close> is \<open>time.Now()\<close> at that moment. The tables hold what earlier
  runs stored.
\<close>

definition init :: "time \<Rightarrow> Hex list \<Rightarrow> Flower list \<Rightarrow> Reward list \<Rightarrow> world" where
  "init now hs fs rs =
     \<lparr> clock = now,
       upsertClause = \<lparr> Columns = [''id''], UpdateAll = True, DoUpdates = [(''updated_at'', now)] \<rparr>,
       osmCache = Map.empty,
       trace = [],
       hexRows = hs, flowerRows = fs, rewardRows = rs \<rparr>"

definition emit :: "event \<Rightarrow> world \<Rightarrow> world" where
  "emit e w = w\<lparr>trace := trace w @ [e]\<rparr>"

definition elapse :: "nat \<Rightarrow> world \<Rightarrow> world" where
  "elapse d w = w\<lparr>clock := clock w + d\<rparr>"

definition call :: "event \<Rightarrow> world \<Rightarrow> world" where
  \<comment> \<open>a call that leaves the process: recorded, and one clock unit (a millisecond) passes\<close>
  "call e w = elapse 1 (emit e w)"

definition sleep :: "nat \<Rightarrow> world \<Rightarrow> world" where
  "sleep d w = elapse d (emit (Sleep d) w)"

section \<open>The primary API\<close>

definition pollenAPIHexes :: string where
  "pollenAPIHexes = ''https://api.pollenmobile.io/explorer/hexes?partial=true&h3_hex_top=''"

definition pollenAPIHex :: string where
  "pollenAPIHex = ''https://api.pollenmobile.io/explorer/hex?h3_hex=''"

definition pollenAPIFlowers :: string where
  "pollenAPIFlowers = ''https://api.pollenmobile.io/explorer/flowers''"

definition pollenAPIRewards :: string where
  "pollenAPIRewards = ''https://api.pollenmobile.io/explorer/device-rewards-all?device=''"

definition pollenRetries :: nat where
  "pollenRetries = 3"

definition pollenRetryWaitTime :: nat where
  \<comment> \<open>\<open>time.Minute * 3\<close>, in milliseconds\<close>
  "pollenRetryWaitTime = 3 * 60 * 1000"

text \<open>
  \<open>pollenAPICall[T]\<close>. Its named result \<open>t\<close> starts as the zero value of \<open>T\<close>, which
  the model takes as an argument; it is returned as it is when the request or the
  transport fails, and as the decoder left it otherwise.
\<close>

definition pollenAPICall ::
  "'a \<Rightarrow> (time \<Rightarrow> string \<Rightarrow> 'a reply) \<Rightarrow> string \<Rightarrow> world \<Rightarrow> ('a \<times> error option) \<times> world" where
  "pollenAPICall zero api url w =
     (let w1 = call PollenTake w in
      case api (clock w1) url of
        NewRequestFails err \<Rightarrow> ((zero, Some err), w1)
      | DoFails err \<Rightarrow> ((zero, Some err), call (PollenGet url) w1)
      | Decoded t err \<Rightarrow> ((t, err), call (PollenGet url) w1))"

text \<open>
  \<open>pollenAPICallWithRetries[T]\<close>. The loop declares its own \<open>t\<close> and \<open>err\<close> with
  \<open>:=\<close>; the \<open>return t, err\<close> after the loop returns the named results of the
  function, which nothing has assigned: the zero value and the nil error.
\<close>

function pollenAPICallWithRetries_loop ::
  "'a \<Rightarrow> (time \<Rightarrow> string \<Rightarrow> 'a reply) \<Rightarrow> string \<Rightarrow> nat \<Rightarrow> world \<Rightarrow> ('a \<times> error option) \<times> world" where
  "pollenAPICallWithRetries_loop zero api url i w =
     (if i < pollenRetries then
        (case pollenAPICall zero api url w of
           ((t, None), w') \<Rightarrow> ((t, None), w')
         | ((t, Some err), w') \<Rightarrow>
             pollenAPICallWithRetries_loop zero api url (Suc i) (sleep pollenRetryWaitTime w'))
      else ((zero, None), w))"
  by pat_completeness auto
termination
  by (relation "measure (\<lambda>(zero, api, url, i, w). pollenRetries - i)") auto

declare pollenAPICallWithRetries_loop.simps [simp del]

definition pollenAPICallWithRetries ::
  "'a \<Rightarrow> (time \<Rightarrow> string \<Rightarrow> 'a reply) \<Rightarrow> string \<Rightarrow> world \<Rightarrow> ('a \<times> error option) \<times> world" where
  "pollenAPICallWithRetries zero api url w = pollenAPICallWithRetries_loop zero api url 0 w"

definition zero_HexItem :: HexItem where
  "zero_HexItem =
     \<lparr> hi_Hex = \<lparr> hi_SignalStrength = 0, hi_Attach = 0, hi_LastCovered = [], hi_LastPollenDrop = [],
                  hi_Device = [], hi_Time = [], hi_H3HexTop = [], hi_Flowers = [],
                  hi_FlowersContained = [], hi_BountyReward = 0, hi_H3Hex = [], hi_Ping = 0,
                  hi_LootBoxReward = 0, hi_DailyReward = 0, hi_Bounty = [], hi_BountyTime = [] \<rparr> \<rparr>"

definition getAllHexes :: "env \<Rightarrow> string \<Rightarrow> world \<Rightarrow> (HexListItem list \<times> error option) \<times> world" where
  "getAllHexes env area w = pollenAPICallWithRetries [] (apiHexes env) (pollenAPIHexes @ area) w"

definition getHexDetails :: "env \<Rightarrow> string \<Rightarrow> world \<Rightarrow> (HexItem \<times> error option) \<times> world" where
  "getHexDetails env hex w = pollenAPICallWithRetries zero_HexItem (apiHex env) (pollenAPIHex @ hex) w"

definition getAllFlowers :: "env \<Rightarrow> world \<Rightarrow> (FlowerListItem list \<times> error option) \<times> world" where
  "getAllFlowers env w = pollenAPICallWithRetries [] (apiFlowers env) pollenAPIFlowers w"

definition getRewards :: "env \<Rightarrow> string \<Rightarrow> world \<Rightarrow> (DeviceRewardItem list \<times> error option) \<times> world" where
  "getRewards env deviceName w =
     (let ((rewardsByDate, err), w') =
            pollenAPICallWithRetries [] (apiRewards env) (pollenAPIRewards @ deviceName) w
      in ((concat (map snd rewardsByDate), err), w'))"

section \<open>The geocode cache\<close>

definition zero_ReverseGeocode :: ReverseGeocode where
  "zero_ReverseGeocode =
     \<lparr> g_Lat = 0, g_Lng = 0, g_Address = [], g_Suburb = [], g_City = [], g_State = [],
       g_Town = [], g_County = [] \<rparr>"

definition reverseGeocode :: "env \<Rightarrow> string \<Rightarrow> world \<Rightarrow> (ReverseGeocode \<times> error option) \<times> world" where
  "reverseGeocode env hex w =
     (case osmCache w hex of
        Some record \<Rightarrow> ((record, None), w)
      | None \<Rightarrow>
          (let w1 = call OsmTake w;
               (lat, lng) = hexToLatLng (CellToLatLng env) hex
           in case osm env (clock w1) lat lng of
                NewRequestFails err \<Rightarrow> ((zero_ReverseGeocode, Some err), w1)
              | DoFails err \<Rightarrow> ((zero_ReverseGeocode, Some err), call (OsmGet hex lat lng) w1)
              | Decoded place (Some err) \<Rightarrow>
                  ((zero_ReverseGeocode, Some err), call (OsmGet hex lat lng) w1)
              | Decoded place None \<Rightarrow>
                  (let g = \<lparr> g_Lat = lat, g_Lng = lng,
                             g_Address = o_DisplayName place,
                             g_Suburb = oa_Suburb (o_Address place),
                             g_City = oa_City (o_Address place),
                             g_State = oa_State (o_Address place),
                             g_Town = oa_Town (o_Address place),
                             g_County = oa_County (o_Address place) \<rparr>;
                       w2 = call (OsmGet hex lat lng) w1
                   in ((g, None), w2\<lparr>osmCache := (osmCache w2)(hex \<mapsto> g)\<rparr>))))"

text \<open>
  \<open>initGeocodeCache\<close> reads the place columns of every stored hex and flower and
  assigns each into the cache, table after table and row after row.
\<close>

definition hexRecord :: "Hex \<Rightarrow> string \<times> ReverseGeocode" where
  "hexRecord h =
     (h_ID h, \<lparr> g_Lat = h_Lat h, g_Lng = h_Lng h, g_Address = h_Address h, g_Suburb = h_Suburb h,
                g_City = h_City h, g_State = h_State h, g_Town = h_Town h, g_County = h_County h \<rparr>)"

definition flowerRecord :: "Flower \<Rightarrow> string \<times> ReverseGeocode" where
  "flowerRecord f =
     (f_H3Hex f, \<lparr> g_Lat = f_Lat f, g_Lng = f_Lng f, g_Address = f_Address f, g_Suburb = f_Suburb f,
                   g_City = f_City f, g_State = f_State f, g_Town = f_Town f, g_County = f_County f \<rparr>)"

fun fillCache :: "(string \<times> ReverseGeocode) list \<Rightarrow> world \<Rightarrow> world" where
  "fillCache [] w = w"
| "fillCache ((hex, g) # records) w = fillCache records (w\<lparr>osmCache := (osmCache w)(hex \<mapsto> g)\<rparr>)"

definition dbCall :: "env \<Rightarrow> event \<Rightarrow> world \<Rightarrow> error option \<times> world" where
  \<comment> \<open>a statement sent to the store: the store may fail it\<close>
  "dbCall env e w = (dbError env (clock w), call e w)"

definition initGeocodeCache :: "env \<Rightarrow> world \<Rightarrow> error option \<times> world" where
  "initGeocodeCache env w =
     (case dbCall env (Find pollen_hexes) w of
        (Some err, w1) \<Rightarrow> (Some err, w1)
      | (None, w1) \<Rightarrow>
          (let w2 = fillCache (map hexRecord (hexRows w1)) w1 in
           case dbCall env (Find pollen_flowers) w2 of
             (Some err, w3) \<Rightarrow> (Some err, w3)
           | (None, w3) \<Rightarrow> (None, fillCache (map flowerRecord (flowerRows w3)) w3)))"

section \<open>The store\<close>

text \<open>
  An insert under \<open>upsertClause\<close>. The row arrives with the current time as its
  \<open>UpdatedAt\<close> (the column's default). With no stored row of the same \<open>id\<close> it is
  appended. On a conflict on \<open>id\<close>, \<open>UpdateAll\<close> overwrites the stored row's columns
  with the new row's, and each assignment of \<open>DoUpdates\<close> sets its column to its value.
\<close>

definition onConflict :: "(time \<Rightarrow> 'r \<Rightarrow> 'r) \<Rightarrow> OnConflict \<Rightarrow> 'r \<Rightarrow> 'r \<Rightarrow> 'r" where
  "onConflict setUpdatedAt oc old new =
     (let base = (if UpdateAll oc then new else old) in
      case map_of (DoUpdates oc) ''updated_at'' of
        None \<Rightarrow> base
      | Some v \<Rightarrow> setUpdatedAt v base)"

definition upsertRow ::
  "('r \<Rightarrow> string) \<Rightarrow> (time \<Rightarrow> 'r \<Rightarrow> 'r) \<Rightarrow> OnConflict \<Rightarrow> time \<Rightarrow> 'r list \<Rightarrow> 'r \<Rightarrow> 'r list" where
  "upsertRow ident setUpdatedAt oc now rows r =
     (let new = setUpdatedAt now r in
      if ident r \<in> set (map ident rows)
      then map (\<lambda>old. if ident old = ident r then onConflict setUpdatedAt oc old new else old) rows
      else rows @ [new])"

definition Create_Hex :: "env \<Rightarrow> Hex \<Rightarrow> world \<Rightarrow> error option \<times> world" where
  "Create_Hex env h w =
     (case dbCall env (Create pollen_hexes [h_ID h]) w of
        (Some err, w') \<Rightarrow> (Some err, w')
      | (None, w') \<Rightarrow>
          (None, w'\<lparr>hexRows :=
                      upsertRow h_ID (\<lambda>t r. r\<lparr>h_UpdatedAt := t\<rparr>) (upsertClause w) (clock w)
                        (hexRows w') h\<rparr>))"

text \<open>
  \<open>CreateInBatches(&rows, 200)\<close>: one statement for every 200 rows, in order; the
  rows are stored when every statement has succeeded, and none is when one fails.
\<close>

function chunks :: "nat \<Rightarrow> 'a list \<Rightarrow> 'a list list" where
  "chunks n xs = (if n = 0 \<or> xs = [] then [] else take n xs # chunks n (drop n xs))"
  by pat_completeness auto
termination
  by (relation "measure (\<lambda>(n, xs). length xs)") auto

declare chunks.simps [simp del]

fun createBatches ::
  "env \<Rightarrow> table \<Rightarrow> ('r \<Rightarrow> string) \<Rightarrow> (time \<Rightarrow> 'r \<Rightarrow> 'r) \<Rightarrow> 'r list list \<Rightarrow> 'r list \<Rightarrow> world
     \<Rightarrow> (error option \<times> 'r list) \<times> world" where
  "createBatches env tbl ident setUpdatedAt [] rows w = ((None, rows), w)"
| "createBatches env tbl ident setUpdatedAt (batch # batches) rows w =
     (case dbCall env (Create tbl (map ident batch)) w of
        (Some err, w') \<Rightarrow> ((Some err, rows), w')
      | (None, w') \<Rightarrow>
          createBatches env tbl ident setUpdatedAt batches
            (foldl (upsertRow ident setUpdatedAt (upsertClause w) (clock w)) rows batch) w')"

definition CreateInBatches_Flower :: "env \<Rightarrow> Flower list \<Rightarrow> world \<Rightarrow> error option \<times> world" where
  "CreateInBatches_Flower env fs w =
     (case createBatches env pollen_flowers f_ID (\<lambda>t r. r\<lparr>f_UpdatedAt := t\<rparr>)
             (chunks 200 fs) (flowerRows w) w of
        ((Some err, rows), w') \<Rightarrow> (Some err, w')
      | ((None, rows), w') \<Rightarrow> (None, w'\<lparr>flowerRows := rows\<rparr>))"

definition CreateInBatches_Reward :: "env \<Rightarrow> Reward list \<Rightarrow> world \<Rightarrow> error option \<times> world" where
  "CreateInBatches_Reward env rs w =
     (case createBatches env pollen_rewards r_ID (\<lambda>t r. r\<lparr>r_UpdatedAt := t\<rparr>)
             (chunks 200 rs) (rewardRows w) w of
        ((Some err, rows), w') \<Rightarrow> (Some err, w')
      | ((None, rows), w') \<Rightarrow> (None, w'\<lparr>rewardRows := rows\<rparr>))"

section \<open>The sync routines\<close>

subsection \<open>\<open>syncRewards\<close>\<close>

definition coverageOf :: "any \<Rightarrow> string list" where
  \<comment> \<open>\<open>coverage := []string{}; switch v := r.Coverage.(type) { case []string: coverage = v }\<close>\<close>
  "coverageOf v = (case v of StringSlice xs \<Rightarrow> xs | _ \<Rightarrow> [])"

definition toReward :: "DeviceRewardItem \<Rightarrow> Reward" where
  "toReward r =
     \<lparr> r_ID = ri_RewardID r, r_PCN = ri_PCN r, r_PIC = ri_PIC r, r_RSERatio = ri_RSERatio r,
       r_Client = ri_Client r, r_Coverage = coverageOf (ri_Coverage r), r_DailyPIC = ri_DailyPIC r,
       r_Date = ri_Date r, r_Device = ri_Device r, r_DeviceType = ri_DeviceType r,
       r_Reward = ri_Reward r, r_Transaction = ri_Transaction r,
       r_TransactionStatus = ri_TransactionStatus r, r_Wallet = ri_Wallet r, r_UpdatedAt = 0 \<rparr>"

fun syncRewards_loop :: "env \<Rightarrow> nat \<Rightarrow> nat \<Rightarrow> string list \<Rightarrow> world \<Rightarrow> error option \<times> world" where
  "syncRewards_loop env n i [] w = (None, w)"
| "syncRewards_loop env n i (flowerName # flowerNames) w =
     (let w1 = (if i mod 100 = 0 then emit (Printf (RewardProgress i n)) w else w) in
      case getRewards env flowerName w1 of
        ((rewardItems, Some err), w2) \<Rightarrow> (Some err, w2)
      | ((rewardItems, None), w2) \<Rightarrow>
          (case CreateInBatches_Reward env (map toReward rewardItems) w2 of
             (Some err, w3) \<Rightarrow> (Some err, w3)
           | (None, w3) \<Rightarrow> syncRewards_loop env n (Suc i) flowerNames w3))"

definition syncRewards :: "env \<Rightarrow> world \<Rightarrow> error option \<times> world" where
  "syncRewards env w =
     (case dbCall env (Find pollen_flowers) w of
        (Some err, w1) \<Rightarrow> (Some err, w1)
      | (None, w1) \<Rightarrow>
          (let flowerNames = map f_ID (flowerRows w1);
               w2 = emit (Printf (FoundRewardCandidates (length flowerNames))) w1
           in syncRewards_loop env (length flowerNames) 0 flowerNames w2))"

subsection \<open>\<open>syncFlowers\<close>\<close>

definition toFlower :: "FlowerListItem \<Rightarrow> ReverseGeocode \<Rightarrow> string \<Rightarrow> Flower" where
  "toFlower f geo beesSeen =
     \<lparr> f_ID = fi_ID f, f_BountyRewards = fi_BountyRewards f, f_DisplayName = fi_DisplayName f,
       f_UpdateTime = fi_UpdateTime f, f_DailyBeesSeen = fi_DailyBeesSeen f,
       f_FirstSeen = fi_FirstSeen f, f_HBeesSeen = fi_HBeesSeen f,
       f_WalletAddress = fi_WalletAddress f, f_CoveredHexes = fi_CoveredHexes f,
       f_LastSeen = fi_LastSeen f, f_DailyAttaches = fi_DailyAttaches f, f_H3Hex = fi_H3Hex f,
       f_Lat = g_Lat geo, f_Lng = g_Lng geo, f_Address = g_Address geo, f_Suburb = g_Suburb geo,
       f_City = g_City geo, f_State = g_State geo, f_Town = g_Town geo, f_County = g_County geo,
       f_Active = fi_Active f, f_FlowerRewards = fi_FlowerRewards f,
       f_DailyCoveredHexes = fi_DailyCoveredHexes f, f_NFTAddress = fi_NFTAddress f,
       f_Nickname = fi_Nickname f, f_FlowerAttaches = fi_FlowerAttaches f,
       f_DailyHBeesSeen = fi_DailyHBeesSeen f, f_DailyRewards = fi_DailyRewards f,
       f_ImageURL = fi_ImageURL f, f_BeesSeen = beesSeen, f_UpdatedAt = 0 \<rparr>"

text \<open>The loop of \<open>syncFlowers\<close>: the rows built, in order, or the first error.\<close>

fun syncFlowers_loop :: "env \<Rightarrow> FlowerListItem list \<Rightarrow> world \<Rightarrow> (error + Flower list) \<times> world" where
  "syncFlowers_loop env [] w = (Inr [], w)"
| "syncFlowers_loop env (f # flowerItems) w =
     (case Marshal env (fi_BeesSeen f) of
        (beesSeen, Some err) \<Rightarrow> (Inl err, w)
      | (beesSeen, None) \<Rightarrow>
          (case reverseGeocode env (fi_H3Hex f) w of
             ((geo, Some err), w1) \<Rightarrow> (Inl err, w1)
           | ((geo, None), w1) \<Rightarrow>
               (case syncFlowers_loop env flowerItems w1 of
                  (Inl err, w2) \<Rightarrow> (Inl err, w2)
                | (Inr fs, w2) \<Rightarrow> (Inr (toFlower f geo beesSeen # fs), w2))))"

definition syncFlowers :: "env \<Rightarrow> world \<Rightarrow> error option \<times> world" where
  "syncFlowers env w =
     (case getAllFlowers env w of
        ((flowerItems, Some err), w1) \<Rightarrow> (Some err, w1)
      | ((flowerItems, None), w1) \<Rightarrow>
          (let w2 = emit (Printf (FoundFlowers (length flowerItems))) w1 in
           case syncFlowers_loop env flowerItems w2 of
             (Inl err, w3) \<Rightarrow> (Some err, w3)
           | (Inr fs, w3) \<Rightarrow> CreateInBatches_Flower env fs w3))"

subsection \<open>\<open>syncHexes\<close>\<close>

definition toHex :: "HexListItem \<Rightarrow> ReverseGeocode \<Rightarrow> HexItem \<Rightarrow> Hex" where
  "toHex hex geo details =
     \<lparr> h_ID = hl_ID hex, h_FlowerCount = hl_FlowerCount hex, h_Covered = hl_Covered hex,
       h_Lat = g_Lat geo, h_Lng = g_Lng geo, h_Address = g_Address geo, h_Suburb = g_Suburb geo,
       h_City = g_City geo, h_State = g_State geo, h_Town = g_Town geo, h_County = g_County geo,
       h_Attach = hi_Attach (hi_Hex details), h_Flowers = hi_Flowers (hi_Hex details),
       h_FlowersContained = hi_FlowersContained (hi_Hex details),
       h_BountyReward = hi_BountyReward (hi_Hex details),
       h_LootBoxReward = hi_LootBoxReward (hi_Hex details),
       h_DailyReward = hi_DailyReward (hi_Hex details), h_Bounty = hi_Bounty (hi_Hex details),
       h_BountyTime = hi_BountyTime (hi_Hex details), h_UpdatedAt = 0 \<rparr>"

fun syncHexes_loop :: "env \<Rightarrow> nat \<Rightarrow> nat \<Rightarrow> HexListItem list \<Rightarrow> world \<Rightarrow> error option \<times> world" where
  "syncHexes_loop env n i [] w = (None, w)"
| "syncHexes_loop env n i (hex # hexes) w =
     (let w1 = (if i mod 100 = 0 then emit (Printf (HexProgress i n)) w else w) in
      case getHexDetails env (hl_ID hex) w1 of
        ((details, Some err), w2) \<Rightarrow> (Some err, w2)
      | ((details, None), w2) \<Rightarrow>
          (case reverseGeocode env (hl_ID hex) w2 of
             ((geo, Some err), w3) \<Rightarrow> (Some err, w3)
           | ((geo, None), w3) \<Rightarrow>
               (case Create_Hex env (toHex hex geo details) w3 of
                  (Some err, w4) \<Rightarrow> (Some err, w4)
                | (None, w4) \<Rightarrow> syncHexes_loop env n (Suc i) hexes w4)))"

definition syncHexes :: "env \<Rightarrow> string \<Rightarrow> world \<Rightarrow> error option \<times> world" where
  "syncHexes env hexLocations w =
     (case getAllHexes env hexLocations w of
        ((hexes, Some err), w1) \<Rightarrow> (Some err, w1)
      | ((hexes, None), w1) \<Rightarrow>
          (let w2 = emit (Printf (FoundHexes (length hexes))) w1 in
           syncHexes_loop env (length hexes) 0 hexes w2))"

section \<open>\<open>main\<close>\<close>

datatype outcome = Returned | Panic error

definition handleErr :: "error option \<times> world \<Rightarrow> outcome \<times> world" where
  "handleErr r =
     (case r of
        (None, w) \<Rightarrow> (Returned, w)
      | (Some err, w) \<Rightarrow> (Panic err, emit (Printf (ErrorMessage err)) w))"

definition andThen :: "outcome \<times> world \<Rightarrow> (world \<Rightarrow> outcome \<times> world) \<Rightarrow> outcome \<times> world" where
  \<comment> \<open>the next statement runs when the one before has not panicked\<close>
  "andThen r next = (case r of (Returned, w) \<Rightarrow> next w | (Panic err, w) \<Rightarrow> (Panic err, w))"

definition models :: "table list" where
  "models = [pollen_hexes, pollen_rewards, pollen_flowers]"

definition indexes :: "string list" where
  "indexes = [''CREATE INDEX IF NOT EXISTS idx_pollen_rewards_device ON pollen_rewards (device, date DESC)'']"

fun main_migrate :: "env \<Rightarrow> table list \<Rightarrow> world \<Rightarrow> outcome \<times> world" where
  "main_migrate env [] w = (Returned, w)"
| "main_migrate env (model # ms) w =
     (case handleErr (dbCall env (AutoMigrate model) w) of
        (Panic err, w') \<Rightarrow> (Panic err, w')
      | (Returned, w') \<Rightarrow> main_migrate env ms w')"

fun main_indexes :: "env \<Rightarrow> string list \<Rightarrow> world \<Rightarrow> outcome \<times> world" where
  "main_indexes env [] w = (Returned, w)"
| "main_indexes env (idx # idxs) w =
     (case handleErr (dbCall env (Exec idx) w) of
        (Panic err, w') \<Rightarrow> (Panic err, w')
      | (Returned, w') \<Rightarrow> main_indexes env idxs w')"

fun main_hexGroups :: "env \<Rightarrow> string list \<Rightarrow> world \<Rightarrow> outcome \<times> world" where
  "main_hexGroups env [] w = (Returned, w)"
| "main_hexGroups env (hexGroup # args) w =
     (if hexGroup = [] \<or> \<not> isValidHex hexGroup then (Panic ErrInvalidArgument, w)
      else (case handleErr (syncHexes env hexGroup w) of
              (Panic err, w') \<Rightarrow> (Panic err, w')
            | (Returned, w') \<Rightarrow> main_hexGroups env args w'))"

text \<open>\<open>main\<close>, on the arguments \<open>os.Args[1:]\<close> and the world as package initialisation left it.\<close>

definition main :: "env \<Rightarrow> string list \<Rightarrow> world \<Rightarrow> outcome \<times> world" where
  "main env args w =
     andThen (handleErr (dbCall env Open w)) (\<lambda>w.
     andThen (main_migrate env models w) (\<lambda>w.
     andThen (main_indexes env indexes w) (\<lambda>w.
     andThen (handleErr (initGeocodeCache env w)) (\<lambda>w.
     andThen (handleErr (syncFlowers env w)) (\<lambda>w.
     andThen (handleErr (syncRewards env w)) (\<lambda>w.
     main_hexGroups env args w))))))"

section \<open>Sample inputs\<close>

text \<open>A stand-in for \<open>h3.CellToLatLng\<close> that tells cells apart: the cell value as the latitude.\<close>

definition cellAsLat :: "int \<Rightarrow> float64 \<times> float64" where
  "cellAsLat v = (of_int v, 0)"

text \<open>Every exchange with the primary API fails in the transport.\<close>

definition alwaysDown :: "time \<Rightarrow> string \<Rightarrow> 'a reply" where
  "alwaysDown t url = DoFails (ErrTransport ''connection refused'')"

definition downEnv :: env where
  "downEnv =
     \<lparr> CellToLatLng = cellAsLat,
       apiHexes = alwaysDown, apiHex = alwaysDown, apiFlowers = alwaysDown, apiRewards = alwaysDown,
       osm = (\<lambda>t lat lng. DoFails (ErrTransport ''connection refused'')),
       Marshal = (\<lambda>m. ([], None)),
       dbError = (\<lambda>t. None) \<rparr>"

text \<open>
  An upstream in good health: one flower, in the cell \<open>852a1393fffffff\<close>; one reward
  for it, whose \<open>coverage\<close> is the JSON array of that cell; one hex for every area; the
  same place for every coordinate; a store that never fails.
\<close>

definition flower1 :: FlowerListItem where
  "flower1 =
     \<lparr> fi_BountyRewards = 0, fi_DisplayName = ''witty-flower'', fi_UpdateTime = ''2022-09-10'',
       fi_DailyBeesSeen = [], fi_FirstSeen = None, fi_HBeesSeen = [], fi_WalletAddress = ''wallet1'',
       fi_CoveredHexes = [''852a1393fffffff''], fi_LastSeen = None, fi_DailyAttaches = 0,
       fi_H3Hex = ''852a1393fffffff'', fi_Active = 1, fi_FlowerRewards = 0,
       fi_DailyCoveredHexes = [], fi_NFTAddress = ''nft1'', fi_ID = ''flower1'',
       fi_Nickname = ''witty'', fi_FlowerAttaches = 0, fi_DailyHBeesSeen = [],
       fi_DailyRewards = 0, fi_ImageURL = [], fi_BeesSeen = [] \<rparr>"

definition reward1 :: DeviceRewardItem where
  "reward1 =
     \<lparr> ri_PCN = 1, ri_PIC = 1, ri_RSERatio = 1, ri_Client = ''client1'',
       ri_Coverage = decodeAny (JArray [JString ''852a1393fffffff'']),
       ri_DailyPIC = 1, ri_Date = ''2022-09-10'', ri_Device = ''flower1'',
       ri_DeviceType = ''flower'', ri_Reward = ''daily'', ri_RewardID = ''reward1'',
       ri_Transaction = ''tx1'', ri_TransactionStatus = ''confirmed'', ri_Wallet = ''wallet1'' \<rparr>"

definition hex1 :: HexListItem where
  "hex1 = \<lparr> hl_ID = ''852a1393fffffff'', hl_Covered = 1, hl_FlowerCount = 1 \<rparr>"

definition place1 :: OSMPAPIResponse where
  "place1 =
     \<lparr> o_DisplayName = ''Brooklyn, New York'',
       o_Address = \<lparr> oa_Suburb = ''Brooklyn'', oa_City = ''New York'', oa_State = ''New York'',
                     oa_Town = [], oa_County = ''Kings'' \<rparr> \<rparr>"

definition okEnv :: env where
  "okEnv =
     \<lparr> CellToLatLng = cellAsLat,
       apiHexes = (\<lambda>t url. Decoded [hex1] None),
       apiHex = (\<lambda>t url. Decoded zero_HexItem None),
       apiFlowers = (\<lambda>t url. Decoded [flower1] None),
       apiRewards = (\<lambda>t url. Decoded [(''2022-09-10'', [reward1])] None),
       osm = (\<lambda>t lat lng. Decoded place1 None),
       Marshal = (\<lambda>m. (''{}'', None)),
       dbError = (\<lambda>t. None) \<rparr>"

text \<open>A store that holds the hex of the sample upstream, with its place, and the world once the cache is warm.\<close>

definition geo1 :: ReverseGeocode where
  "geo1 =
     \<lparr> g_Lat = 40, g_Lng = -74, g_Address = ''Brooklyn, New York'', g_Suburb = ''Brooklyn'',
       g_City = ''New York'', g_State = ''New York'', g_Town = [], g_County = ''Kings'' \<rparr>"


text \<open>
  The hex sync of one area, run once and run again, in a process started at time 1000
  on an empty store.
\<close>

definition firstSync :: world where
  "firstSync = snd (syncHexes okEnv ''852a1393fffffff'' (init 1000 [] [] []))"

definition secondSync :: world where
  "secondSync = snd (syncHexes okEnv ''852a1393fffffff'' firstSync)"

section \<open>Notions the properties are stated with\<close>

text \<open>An exchange fails when \<open>pollenAPICall\<close> returns an error for it.\<close>

definition failed :: "'a reply \<Rightarrow> bool" where
  "failed r = (case r of NewRequestFails err \<Rightarrow> True | DoFails err \<Rightarrow> True
               | Decoded t None \<Rightarrow> False | Decoded t (Some err) \<Rightarrow> True)"

text \<open>
  The attempts and the sleeps of a trace, in order: every call of \<open>pollenAPICall\<close>
  starts with \<open>pollenRateLimit.Take()\<close>.
\<close>

definition attemptsAndSleeps :: "event list \<Rightarrow> event list" where
  "attemptsAndSleeps es = filter (\<lambda>e. e = PollenTake \<or> e = Sleep pollenRetryWaitTime) es"

definition since :: "world \<Rightarrow> world \<Rightarrow> event list" where
  \<comment> \<open>the events recorded after the first world, in the second\<close>
  "since w w' = drop (length (trace w)) (trace w')"

text \<open>The lines printed, and the lookups at the geocoding API that a cell has triggered.\<close>

definition isPrintf :: "event \<Rightarrow> bool" where
  "isPrintf e = (case e of Printf m \<Rightarrow> True | _ \<Rightarrow> False)"

definition prints :: "event list \<Rightarrow> event list" where
  "prints es = filter isPrintf es"

definition isLookup :: "string \<Rightarrow> event \<Rightarrow> bool" where
  "isLookup hex e = (case e of OsmGet h lat lng \<Rightarrow> h = hex | _ \<Rightarrow> False)"

definition lookups :: "string \<Rightarrow> event list \<Rightarrow> nat" where
  "lookups hex es = length (filter (isLookup hex) es)"

text \<open>What \<open>main\<close> does once the cache is warm: the three sync phases.\<close>

definition main_sync :: "env \<Rightarrow> string list \<Rightarrow> world \<Rightarrow> outcome \<times> world" where
  "main_sync env args w =
     andThen (handleErr (syncFlowers env w)) (\<lambda>w.
     andThen (handleErr (syncRewards env w)) (\<lambda>w.
     main_hexGroups env args w))"

text \<open>What \<open>main\<close> does before: the store is opened and migrated, the cache is warmed.\<close>

definition main_setup :: "env \<Rightarrow> world \<Rightarrow> outcome \<times> world" where
  "main_setup env w =
     andThen (handleErr (dbCall env Open w)) (\<lambda>w.
     andThen (main_migrate env models w) (\<lambda>w.
     andThen (main_indexes env indexes w) (\<lambda>w.
     handleErr (initGeocodeCache env w))))"

text \<open>
  A run that goes as another one went and then panics on an invalid argument, unless
  the other had panicked before.
\<close>

definition thenInvalid :: "outcome \<times> world \<Rightarrow> outcome \<times> world" where
  "thenInvalid r =
     (case r of
        (Returned, w) \<Rightarrow> (Panic ErrInvalidArgument, w)
      | (Panic err, w) \<Rightarrow> (Panic err, w))"

text \<open>
  Between two worlds nothing was printed (\<open>silent\<close>); the cache is the same and no
  lookup was made (\<open>sameGeo\<close>); both (\<open>quiet\<close>).
\<close>

definition silent :: "world \<Rightarrow> world \<Rightarrow> bool" where
  "silent w w' \<longleftrightarrow> prints (trace w') = prints (trace w)"

definition sameGeo :: "world \<Rightarrow> world \<Rightarrow> bool" where
  "sameGeo w w' \<longleftrightarrow>
     osmCache w' = osmCache w \<and> (\<forall>hex. lookups hex (trace w') = lookups hex (trace w))"

definition quiet :: "world \<Rightarrow> world \<Rightarrow> bool" where
  "quiet w w' \<longleftrightarrow> silent w w' \<and> sameGeo w w'"







section \<open>Properties\<close>

lemma isValidHex_loop_iff:
  "isValidHex_loop hexes \<longleftrightarrow> (\<forall>hex \<in> set hexes. length hex = 15 \<and> snd (ParseInt hex) = None)"
  by (induction hexes) (auto split: prod.splits option.splits)

lemma ParseUint_loop_err:
  "ParseUint_loop n s = (v, err) \<Longrightarrow>
     (err = None) \<or> (err = Some ErrSyntax \<and> v = 0) \<or> (err = Some ErrRange \<and> v = maxUint64)"
  by (induction n s rule: ParseUint_loop.induct)
     (auto simp: Let_def split: option.splits if_splits)

lemma ParseUint_err:
  "ParseUint s = (v, err) \<Longrightarrow>
     (err = None) \<or> (err = Some ErrSyntax \<and> v = 0) \<or> (err = Some ErrRange \<and> v = maxUint64)"
  unfolding ParseUint_def using ParseUint_loop_err[of 0 s v err] by (auto split: if_splits)

lemma ParseInt_cases:
  "ParseInt hex =
     (case snd (ParseInt hex) of
        None \<Rightarrow> (fst (ParseInt hex), None)
      | Some ErrRange \<Rightarrow> (if hd hex = CHR ''-'' then - (2 ^ 63) else 2 ^ 63 - 1, Some ErrRange)
      | Some e \<Rightarrow> (0, Some ErrSyntax))"
proof (cases "hex = []")
  case True
  then show ?thesis by (simp add: ParseInt_def)
next
  case False
  obtain un err where
    u: "ParseUint (if hd hex = CHR ''+'' \<or> hd hex = CHR ''-'' then tl hex else hex) = (un, err)"
    by (cases "ParseUint (if hd hex = CHR ''+'' \<or> hd hex = CHR ''-'' then tl hex else hex)") auto
  from ParseUint_err[OF u] False u show ?thesis
    by (auto simp: ParseInt_def Let_def int64_def maxUint64_def)
qed

text \<open>
  C5. \<open>isValidHex\<close> accepts \<open>"852a1393fffffff,852a104bfffffff"\<close> and rejects
  \<open>"852a1393fffffff,"\<close> (the token after the comma is empty), \<open>"nothex"\<close> and the empty
  string; in general it accepts a string exactly when every token between commas has
  15 bytes and \<open>ParseInt\<close> parses it in base 16 without an error.
\<close>

theorem isValidHex_tokens:
  "isValidHex ''852a1393fffffff,852a104bfffffff''
   \<and> \<not> isValidHex ''852a1393fffffff,''
   \<and> \<not> isValidHex ''nothex''
   \<and> \<not> isValidHex ''''
   \<and> (isValidHex s \<longleftrightarrow>
        (\<forall>tok \<in> set (Split s (CHR '','')). length tok = 15 \<and> snd (ParseInt tok) = None))"
proof -
  have a: "isValidHex ''852a1393fffffff,852a104bfffffff''" by code_simp
  have b: "\<not> isValidHex ''852a1393fffffff,''" by code_simp
  have c: "\<not> isValidHex ''nothex''" by code_simp
  have d: "\<not> isValidHex ''''" by code_simp
  show ?thesis using a b c d by (simp add: isValidHex_def isValidHex_loop_iff)
qed

theorem isValidHex_tokens_witness:
  "isValidHex ''852a1393fffffff,852a104bfffffff''
   \<and> Split ''852a1393fffffff,852a104bfffffff'' (CHR '','') = [''852a1393fffffff'', ''852a104bfffffff'']
   \<and> length ''852a1393fffffff'' = 15 \<and> snd (ParseInt ''852a1393fffffff'') = None
   \<and> length ''852a104bfffffff'' = 15 \<and> snd (ParseInt ''852a104bfffffff'') = None"
proof -
  have s: "Split ''852a1393fffffff,852a104bfffffff'' (CHR '','')
             = [''852a1393fffffff'', ''852a104bfffffff'']"
    by code_simp
  show ?thesis
    using isValidHex_tokens [of "''852a1393fffffff,852a104bfffffff''"] by (auto simp: s)
qed

text \<open>
  C10. A token of 15 bytes need not be 15 hexadecimal digits to be accepted: \<open>ParseInt\<close>
  takes a leading sign, so a \<open>+\<close> or a \<open>-\<close> followed by 14 hexadecimal digits is
  accepted by \<open>isValidHex\<close>, although the sign is not a digit.
\<close>

theorem isValidHex_accepts_sign:
  "isValidHex ''+2a1393ffffffff'' \<and> isValidHex ''-2a1393ffffffff''
   \<and> length ''+2a1393ffffffff'' = 15 \<and> length ''-2a1393ffffffff'' = 15
   \<and> digitVal (CHR ''+'') = None \<and> digitVal (CHR ''-'') = None
   \<and> ParseInt ''+2a1393ffffffff'' = (11843475397935103, None)
   \<and> ParseInt ''-2a1393ffffffff'' = (- 11843475397935103, None)"
  by code_simp

text \<open>
  C9, as the claim states it, fails: a string that does not parse need not give the
  coordinates of cell 0. Sixteen \<open>f\<close>s are out of the range of 64 bits, \<open>ParseInt\<close>
  returns the largest value with the range error, and \<open>hexToLatLng\<close> converts that
  value.
\<close>

theorem hexToLatLng_range_counterexample:
  "snd (ParseInt ''ffffffffffffffff'') = Some ErrRange
   \<and> hexToLatLng cellAsLat ''ffffffffffffffff'' = cellAsLat 9223372036854775807
   \<and> hexToLatLng cellAsLat ''ffffffffffffffff'' \<noteq> cellAsLat 0"
proof -
  have p: "ParseInt ''ffffffffffffffff'' = (9223372036854775807, Some ErrRange)" by code_simp
  show ?thesis by (simp add: p hexToLatLng_def cellAsLat_def)
qed

text \<open>
  C9, amended. \<open>hexToLatLng\<close> is total and drops the parse error: it returns the
  coordinates of the parsed value when the string parses, of cell 0 on a syntax error
  (the empty string included), and of the clamped value on a range error, which is
  \<open>2^63 - 1\<close>, or \<open>-2^63\<close> after a minus sign. The only errors of \<open>reverseGeocode\<close>
  are those of the exchange with the geocoding API, on a cache miss: none comes from
  the cell ID.
\<close>

theorem hexToLatLng_total:
  "hexToLatLng C hex =
     (case snd (ParseInt hex) of
        None \<Rightarrow> C (fst (ParseInt hex))
      | Some ErrRange \<Rightarrow> (if hd hex = CHR ''-'' then C (- (2 ^ 63)) else C (2 ^ 63 - 1))
      | Some e \<Rightarrow> C 0)
   \<and> snd (fst (reverseGeocode env hex w)) =
     (case osmCache w hex of
        Some record \<Rightarrow> None
      | None \<Rightarrow>
          (case osm env (Suc (clock w)) (fst (hexToLatLng (CellToLatLng env) hex))
                  (snd (hexToLatLng (CellToLatLng env) hex)) of
             NewRequestFails err \<Rightarrow> Some err
           | DoFails err \<Rightarrow> Some err
           | Decoded place err \<Rightarrow> err))"
proof
  show "hexToLatLng C hex =
     (case snd (ParseInt hex) of
        None \<Rightarrow> C (fst (ParseInt hex))
      | Some ErrRange \<Rightarrow> (if hd hex = CHR ''-'' then C (- (2 ^ 63)) else C (2 ^ 63 - 1))
      | Some e \<Rightarrow> C 0)"
    unfolding hexToLatLng_def
    by (subst ParseInt_cases) (auto split: option.splits error.splits prod.splits)
next
  show "snd (fst (reverseGeocode env hex w)) =
     (case osmCache w hex of
        Some record \<Rightarrow> None
      | None \<Rightarrow>
          (case osm env (Suc (clock w)) (fst (hexToLatLng (CellToLatLng env) hex))
                  (snd (hexToLatLng (CellToLatLng env) hex)) of
             NewRequestFails err \<Rightarrow> Some err
           | DoFails err \<Rightarrow> Some err
           | Decoded place err \<Rightarrow> err))"
    by (auto simp: reverseGeocode_def Let_def call_def elapse_def emit_def
             split: option.splits reply.splits prod.splits)
qed

subsection \<open>The retrying fetcher\<close>

lemma pollenAPICall_failed:
  "failed (api (Suc (clock w)) url) \<Longrightarrow> snd (fst (pollenAPICall zero api url w)) \<noteq> None"
  by (auto simp: pollenAPICall_def failed_def Let_def call_def elapse_def emit_def
           split: reply.splits option.splits)

lemma pollenAPICall_trace:
  "\<exists>es. trace (snd (pollenAPICall zero api url w)) = trace w @ PollenTake # es
        \<and> attemptsAndSleeps es = []"
  by (auto simp: pollenAPICall_def Let_def call_def elapse_def emit_def attemptsAndSleeps_def
           split: reply.splits option.splits)

lemma trace_sleep: "trace (sleep d w) = trace w @ [Sleep d]"
  by (simp add: sleep_def elapse_def emit_def)

text \<open>
  When every exchange fails, the loop started at \<open>i\<close> makes the remaining attempts, each
  followed by a sleep, and returns the zero value with no error.
\<close>

lemma retries_exhausted:
  assumes down: "\<And>t. failed (api t url)"
  shows "n = pollenRetries - i \<Longrightarrow>
         fst (pollenAPICallWithRetries_loop zero api url i w) = (zero, None)
         \<and> (\<exists>es. trace (snd (pollenAPICallWithRetries_loop zero api url i w)) = trace w @ es
               \<and> attemptsAndSleeps es = concat (replicate n [PollenTake, Sleep pollenRetryWaitTime]))"
proof (induction n arbitrary: i w)
  case 0
  then have "\<not> i < pollenRetries" by simp
  then show ?case
    by (simp add: pollenAPICallWithRetries_loop.simps [of zero api url i w] attemptsAndSleeps_def)
next
  case (Suc n)
  then have lt: "i < pollenRetries" and n: "n = pollenRetries - Suc i" by simp_all
  obtain t r w' where c: "pollenAPICall zero api url w = ((t, r), w')"
    by (metis surj_pair)
  from pollenAPICall_failed [where api=api and w=w and url=url and zero=zero, OF down] c
  obtain err where r: "r = Some err"
    by auto
  from pollenAPICall_trace [of zero api url w] c obtain es where
    es: "trace w' = trace w @ PollenTake # es" "attemptsAndSleeps es = []"
    by auto
  let ?w = "sleep pollenRetryWaitTime w'"
  have unfold: "pollenAPICallWithRetries_loop zero api url i w
                  = pollenAPICallWithRetries_loop zero api url (Suc i) ?w"
    using lt c r by (simp add: pollenAPICallWithRetries_loop.simps [of zero api url i w])
  from Suc.IH [OF n, of ?w] obtain es' where
    res: "fst (pollenAPICallWithRetries_loop zero api url (Suc i) ?w) = (zero, None)"
    and es': "trace (snd (pollenAPICallWithRetries_loop zero api url (Suc i) ?w)) = trace ?w @ es'"
             "attemptsAndSleeps es' = concat (replicate n [PollenTake, Sleep pollenRetryWaitTime])"
    by auto
  have "trace (snd (pollenAPICallWithRetries_loop zero api url i w))
          = trace w @ (PollenTake # es @ Sleep pollenRetryWaitTime # es')"
    using unfold es' es by (simp add: trace_sleep)
  moreover have "attemptsAndSleeps (PollenTake # es @ Sleep pollenRetryWaitTime # es')
          = concat (replicate (Suc n) [PollenTake, Sleep pollenRetryWaitTime])"
    using es(2) es'(2) by (simp add: attemptsAndSleeps_def)
  ultimately show ?case using unfold res by auto
qed

text \<open>
  C1 asks that, when every attempt fails, the last attempt's error reaches the caller.
  The code returns something else: the \<open>t\<close> and \<open>err\<close> assigned in the loop are the
  loop's own, and after the last attempt the function returns its named results, the
  zero value and the nil error. So for every URL whose exchanges all fail, the caller
  gets a success with a zero value.
\<close>

theorem pollenAPICallWithRetries_exhausted_nil:
  "(\<forall>t. failed (api t url)) \<Longrightarrow> fst (pollenAPICallWithRetries zero api url w) = (zero, None)"
  using retries_exhausted [of api url pollenRetries 0 zero w]
  by (simp add: pollenAPICallWithRetries_def)

theorem pollenAPICallWithRetries_exhausted_nil_witness:
  "(\<forall>t. failed (apiFlowers downEnv t pollenAPIFlowers))
   \<and> fst (getAllFlowers downEnv (init 0 [] [] [])) = ([], None)"
  using pollenAPICallWithRetries_exhausted_nil
          [of "apiFlowers downEnv" pollenAPIFlowers "[]" "init 0 [] [] []"]
  by (simp add: getAllFlowers_def downEnv_def alwaysDown_def failed_def)

text \<open>
  C4, as the claim states it, fails: with three failing attempts there are three sleeps,
  not two, and the last thing the fetcher does before it returns is to sleep.
\<close>

theorem retries_sleeps_counterexample:
  "trace (snd (getAllFlowers downEnv (init 0 [] [] []))) =
     [PollenTake, PollenGet pollenAPIFlowers, Sleep pollenRetryWaitTime,
      PollenTake, PollenGet pollenAPIFlowers, Sleep pollenRetryWaitTime,
      PollenTake, PollenGet pollenAPIFlowers, Sleep pollenRetryWaitTime]"
  by (simp add: getAllFlowers_def pollenAPICallWithRetries_def pollenAPICallWithRetries_loop.simps
       pollenAPICall_def downEnv_def alwaysDown_def init_def call_def elapse_def emit_def sleep_def
       pollenRetries_def Let_def)

text \<open>
  C4, amended. For every URL whose exchanges all fail, \<open>pollenAPICallWithRetries\<close>
  makes exactly 3 attempts, and sleeps the fixed wait once after each failed attempt,
  the last one included: three sleeps, one after each attempt.
\<close>

theorem retries_three_attempts_three_sleeps:
  "(\<forall>t. failed (api t url)) \<Longrightarrow>
     attemptsAndSleeps (since w (snd (pollenAPICallWithRetries zero api url w)))
       = [PollenTake, Sleep pollenRetryWaitTime,
          PollenTake, Sleep pollenRetryWaitTime,
          PollenTake, Sleep pollenRetryWaitTime]"
  using retries_exhausted [of api url pollenRetries 0 zero w]
  by (auto simp: pollenAPICallWithRetries_def since_def pollenRetries_def numeral_3_eq_3)

theorem retries_three_attempts_three_sleeps_witness:
  "(\<forall>t. failed (apiHexes downEnv t (pollenAPIHexes @ ''852a1393fffffff'')))
   \<and> attemptsAndSleeps (since (init 0 [] [] [])
        (snd (getAllHexes downEnv ''852a1393fffffff'' (init 0 [] [] []))))
       = [PollenTake, Sleep pollenRetryWaitTime,
          PollenTake, Sleep pollenRetryWaitTime,
          PollenTake, Sleep pollenRetryWaitTime]"
  using retries_three_attempts_three_sleeps
          [of "apiHexes downEnv" "pollenAPIHexes @ ''852a1393fffffff''" "init 0 [] [] []" "[]"]
  by (simp add: getAllHexes_def downEnv_def alwaysDown_def failed_def)

subsection \<open>Effects that leave the prints and the cache alone\<close>


















subsection \<open>The geocode cache\<close>





lemma quiet_silent: "quiet w w' \<Longrightarrow> silent w w'"
  by (simp add: quiet_def)


lemma sameGeo_rows:
  "sameGeo w (w'\<lparr>hexRows := hs\<rparr>) = sameGeo w w'"
  "sameGeo w (w'\<lparr>flowerRows := fs\<rparr>) = sameGeo w w'"
  "sameGeo w (w'\<lparr>rewardRows := rs\<rparr>) = sameGeo w w'"
  by (simp_all add: sameGeo_def)















subsection \<open>The sync routines, seen from the prints and from the cache\<close>















subsection \<open>The run, seen from the cache\<close>













lemma andThen_assoc: "andThen (andThen r f) g = andThen r (\<lambda>w. andThen (f w) g)"
  by (cases r) (auto simp: andThen_def split: outcome.splits)

lemma main_split: "main env args w = andThen (main_setup env w) (main_sync env args)"
  by (simp add: main_def main_setup_def andThen_assoc main_sync_def [abs_def])






subsection \<open>Sample runs\<close>

lemma okEnv_fields:
  "CellToLatLng okEnv = cellAsLat"
  "apiHexes okEnv t url = Decoded [hex1] None"
  "apiHex okEnv t url = Decoded zero_HexItem None"
  "apiFlowers okEnv t url = Decoded [flower1] None"
  "apiRewards okEnv t url = Decoded [(''2022-09-10'', [reward1])] None"
  "osm okEnv t lat lng = Decoded place1 None"
  "Marshal okEnv m = (''{}'', None)"
  "dbError okEnv t = None"
  by (simp_all add: okEnv_def)

lemma hexToLatLng_cell1: "hexToLatLng cellAsLat ''852a1393fffffff'' = (599718967652646911, 0)"
proof -
  have "ParseInt ''852a1393fffffff'' = (599718967652646911, None)" by code_simp
  then show ?thesis by (simp add: hexToLatLng_def cellAsLat_def)
qed

lemma nothex_invalid: "\<not> isValidHex ''nothex''"
  by code_simp

lemma cell1_valid: "isValidHex ''852a1393fffffff''"
  by code_simp

lemmas run_simps =
  getAllFlowers_def getAllHexes_def getHexDetails_def getRewards_def
  pollenAPICallWithRetries_def pollenAPICallWithRetries_loop.simps pollenAPICall_def
  okEnv_fields init_def call_def elapse_def emit_def sleep_def pollenRetries_def Let_def
  syncFlowers_def syncRewards_def syncHexes_def reverseGeocode_def dbCall_def Create_Hex_def
  CreateInBatches_Flower_def CreateInBatches_Reward_def chunks.simps upsertRow_def onConflict_def
  handleErr_def andThen_def main_def models_def indexes_def initGeocodeCache_def
  hexToLatLng_cell1 nothex_invalid cell1_valid
  flower1_def reward1_def hex1_def toFlower_def toReward_def toHex_def coverageOf_def


text \<open>
  C3 asks that a coverage that is a list of strings is stored as that list. The switch
  of \<open>syncRewards\<close> keeps a value of type \<open>[]string\<close>, and only that, and the JSON
  decoder never puts one into an \<open>interface{}\<close>: an array arrives as
  \<open>[]interface{}\<close>. So whatever JSON the upstream sends as coverage, the stored list
  is empty; the reward whose coverage is the array of one cell is stored with no
  coverage.
\<close>

theorem syncRewards_drops_decoded_coverage:
  "coverageOf (StringSlice xs) = xs
   \<and> coverageOf (decodeAny j) = []
   \<and> ri_Coverage reward1 = Slice [String ''852a1393fffffff'']
   \<and> map r_Coverage (rewardRows (snd (syncRewards okEnv
         (init 0 [] [toFlower flower1 geo1 ''{}''] [])))) = [[]]"
proof (intro conjI)
  show "coverageOf (StringSlice xs) = xs" by (simp add: coverageOf_def)
  show "coverageOf (decodeAny j) = []" by (cases j) (simp_all add: coverageOf_def)
  show "ri_Coverage reward1 = Slice [String ''852a1393fffffff'']" by (simp add: reward1_def)
  show "map r_Coverage (rewardRows (snd (syncRewards okEnv
         (init 0 [] [toFlower flower1 geo1 ''{}''] [])))) = [[]]"
    by (simp add: run_simps)
qed

text \<open>
  On a conflict under the clause of the program, the stored row is the new row stamped
  with the value of the clause, whatever the time of the upsert is.
\<close>

lemma upsertRow_conflict:
  assumes "ident r \<in> set (map ident rows)"
    and "UpdateAll oc" and "map_of (DoUpdates oc) ''updated_at'' = Some v"
  shows "upsertRow ident setUpdatedAt oc now rows r =
           map (\<lambda>old. if ident old = ident r then setUpdatedAt v (setUpdatedAt now r) else old) rows"
  using assms by (simp add: upsertRow_def onConflict_def Let_def)

text \<open>
  C7 asks that every upsert stamps the row with the time of that upsert, so that the
  stamp strictly increases from one sync to the next. On a conflict the code stamps the
  row with the \<open>Value\<close> of \<open>upsertClause\<close>, which is \<open>time.Now()\<close> evaluated once, when
  the process starts. In a process started at time 1000, the first hex sync inserts the
  row at time 1006 and the second one, which upserts it at time 1011, stamps it 1000;
  so does \<open>main\<close> when the same area is given twice.
\<close>

theorem upsert_stamps_process_start:
  "map h_UpdatedAt (hexRows firstSync) = [1006] \<and> clock firstSync = 1007
   \<and> map h_UpdatedAt (hexRows secondSync) = [1000] \<and> clock secondSync = 1012
   \<and> map h_UpdatedAt (hexRows (snd (main okEnv [''852a1393fffffff''] (init 1000 [] [] []))))
       = [1020]
   \<and> map h_UpdatedAt (hexRows (snd (main okEnv [''852a1393fffffff'', ''852a1393fffffff'']
         (init 1000 [] [] [])))) = [1000]"
  by (simp add: firstSync_def secondSync_def run_simps)

subsection \<open>Validation of the arguments\<close>

lemma main_hexGroups_invalid:
  "hexGroup = [] \<or> \<not> isValidHex hexGroup \<Longrightarrow>
     main_hexGroups env (before @ hexGroup # after) w = thenInvalid (main_hexGroups env before w)"
proof (induction before arbitrary: w)
  case Nil
  then show ?case by (auto simp: thenInvalid_def)
next
  case (Cons a before)
  show ?case
  proof (cases "a = [] \<or> \<not> isValidHex a")
    case True
    then show ?thesis by (auto simp: thenInvalid_def)
  next
    case False
    obtain r w' where h: "handleErr (syncHexes env a w) = (r, w')"
      by (metis surj_pair)
    show ?thesis
      using False h Cons.IH [OF Cons.prems, of w']
      by (cases r) (simp_all add: thenInvalid_def)
  qed
qed

lemma andThen_thenInvalid:
  "andThen r (\<lambda>w. thenInvalid (f w)) = thenInvalid (andThen r f)"
  by (cases r) (auto simp: andThen_def thenInvalid_def split: outcome.splits)

lemma main_sync_invalid:
  "hexGroup = [] \<or> \<not> isValidHex hexGroup \<Longrightarrow>
     main_sync env (before @ hexGroup # after) w = thenInvalid (main_sync env before w)"
  by (simp add: main_sync_def main_hexGroups_invalid andThen_thenInvalid)

text \<open>
  C2, as the claim states it, fails: the arguments are validated one by one in the loop
  that syncs them, after the flowers and the rewards have been synced. With the single
  argument \<open>"nothex"\<close> the run panics on the invalid argument, and by then it has
  fetched and stored the flowers and the rewards.
\<close>

theorem main_syncs_before_validation_counterexample:
  "fst (main okEnv [''nothex''] (init 0 [] [] [])) = Panic ErrInvalidArgument
   \<and> trace (snd (main okEnv [''nothex''] (init 0 [] [] []))) =
     [Open, AutoMigrate pollen_hexes, AutoMigrate pollen_rewards, AutoMigrate pollen_flowers,
      Exec ''CREATE INDEX IF NOT EXISTS idx_pollen_rewards_device ON pollen_rewards (device, date DESC)'',
      Find pollen_hexes, Find pollen_flowers,
      PollenTake, PollenGet pollenAPIFlowers, Printf (FoundFlowers 1),
      OsmTake, OsmGet ''852a1393fffffff'' 599718967652646911 0,
      Create pollen_flowers [''flower1''],
      Find pollen_flowers, Printf (FoundRewardCandidates 1), Printf (RewardProgress 0 1),
      PollenTake, PollenGet (pollenAPIRewards @ ''flower1''),
      Create pollen_rewards [''reward1'']]"
  by (simp add: run_simps)

text \<open>
  C2, amended. An argument that is empty or that \<open>isValidHex\<close> rejects aborts the run
  when the loop over the arguments reaches it: the run goes exactly as the run on the
  arguments before it, flowers, rewards and the hex syncs of those arguments included,
  and then panics, and nothing is fetched or stored for the invalid argument or for
  any argument after it.
\<close>

theorem main_aborts_at_invalid_group:
  "hexGroup = [] \<or> \<not> isValidHex hexGroup \<Longrightarrow>
     main env (before @ hexGroup # after) w =
       (case main env before w of
          (Returned, w') \<Rightarrow> (Panic ErrInvalidArgument, w')
        | (Panic err, w') \<Rightarrow> (Panic err, w'))"
proof -
  assume bad: "hexGroup = [] \<or> \<not> isValidHex hexGroup"
  have "main_sync env (before @ hexGroup # after) = (\<lambda>w. thenInvalid (main_sync env before w))"
    by (rule ext) (rule main_sync_invalid [OF bad])
  then have "main env (before @ hexGroup # after) w = thenInvalid (main env before w)"
    by (simp add: main_split andThen_thenInvalid)
  then show ?thesis by (simp add: thenInvalid_def)
qed

theorem main_aborts_at_invalid_group_witness:
  "\<not> isValidHex ''nothex''
   \<and> main okEnv [''852a1393fffffff'', ''nothex'', ''85283457fffffff''] (init 0 [] [] []) =
       (case main okEnv [''852a1393fffffff''] (init 0 [] [] []) of
          (Returned, w') \<Rightarrow> (Panic ErrInvalidArgument, w')
        | (Panic err, w') \<Rightarrow> (Panic err, w'))
   \<and> fst (main okEnv [''852a1393fffffff''] (init 0 [] [] [])) = Returned"
proof -
  have r: "fst (main okEnv [''852a1393fffffff''] (init 0 [] [] [])) = Returned"
    by (simp add: run_simps)
  show ?thesis
    using main_aborts_at_invalid_group
            [where hexGroup = "''nothex''" and before = "[''852a1393fffffff'']"
               and after = "[''85283457fffffff'']" and env = okEnv and w = "init 0 [] [] []"]
          nothex_invalid r
    by simp
qed

end
